theory Spec2Isabelle
  imports Main
begin

section \<open>JavaScript values as the router sees them\<close>

text \<open>
  Request bodies, query parameters, handler results and handler errors are JavaScript
  values. Objects are association lists of their own properties in insertion order;
  \<open>JError m\<close> is an \<open>Error\<close> instance whose \<open>message\<close> is \<open>m\<close>. Numbers are kept as
  integers: the router only ever tests a number for truthiness.
\<close>

datatype jsval =
    JUndefined
  | JNull
  | JBool bool
  | JNum int
  | JStr string
  | JError string
  | JArr "jsval list"
  | JObj "(string \<times> jsval) list"

text \<open>Truthiness, as tested by \<open>if (x)\<close>, \<open>x && y\<close> and \<open>x || y\<close>.\<close>

fun truthy :: "jsval \<Rightarrow> bool" where
  "truthy JUndefined = False"
| "truthy JNull = False"
| "truthy (JBool b) = b"
| "truthy (JNum n) = (n \<noteq> 0)"
| "truthy (JStr s) = (s \<noteq> [])"
| "truthy (JError m) = True"
| "truthy (JArr xs) = True"
| "truthy (JObj kvs) = True"

text \<open>\<open>a || b\<close>: the left operand when it is truthy, the right one otherwise.\<close>

definition js_or :: "jsval \<Rightarrow> jsval \<Rightarrow> jsval" where
  "js_or a b = (if truthy a then a else b)"

text \<open>
  \<open>a === b\<close> where one operand is a primitive held by the router (a task constant or the
  configured secret) and the other comes from the request: primitives compare by type and
  value, and two distinct objects are never strictly equal.
\<close>

fun is_primitive :: "jsval \<Rightarrow> bool" where
  "is_primitive (JError m) = False"
| "is_primitive (JArr xs) = False"
| "is_primitive (JObj kvs) = False"
| "is_primitive _ = True"

definition strict_eq :: "jsval \<Rightarrow> jsval \<Rightarrow> bool" where
  "strict_eq a b \<longleftrightarrow> is_primitive a \<and> a = b"

text \<open>
  Reading a property by one of the names the router uses (\<open>secret\<close>, \<open>task\<close>, \<open>message\<close>,
  \<open>to\<close>, \<open>queued_messages\<close>, \<open>message_result\<close>): an object yields its own property or
  \<open>undefined\<close>, an \<open>Error\<close> yields its \<open>message\<close>, and strings, numbers, booleans and
  arrays have no property of these names. On \<open>null\<close> and \<open>undefined\<close> this is the null-safe
  read of \<open>_.get\<close> and \<open>_.map(xs, 'to')\<close>; every direct \<open>x.name\<close> of the source is applied
  to a truthy value.
\<close>

fun js_get :: "jsval \<Rightarrow> string \<Rightarrow> jsval" where
  "js_get (JObj kvs) k = (case map_of kvs k of Some v \<Rightarrow> v | None \<Rightarrow> JUndefined)"
| "js_get (JError m) k = (if k = ''message'' then JStr m else JUndefined)"
| "js_get _ k = JUndefined"

text \<open>\<open>xs.concat(v)\<close>: an array argument is spread, any other argument is appended as it is.\<close>

fun array_concat :: "jsval list \<Rightarrow> jsval \<Rightarrow> jsval list" where
  "array_concat xs (JArr ys) = xs @ ys"
| "array_concat xs v = xs @ [v]"

text \<open>
  \<open>_.isEmpty\<close>: nullish values are empty, strings and arrays when their length is zero,
  objects when they have no own enumerable property; numbers, booleans and \<open>Error\<close>
  instances have none.
\<close>

fun isEmpty :: "jsval \<Rightarrow> bool" where
  "isEmpty (JStr s) = (s = [])"
| "isEmpty (JArr xs) = (xs = [])"
| "isEmpty (JObj kvs) = (kvs = [])"
| "isEmpty _ = True"

text \<open>
  \<open>_.pick(object, paths)\<close>: a new object holding, in the order of \<open>paths\<close>, each named
  property the object has; anything that is not an object has none of them.
\<close>

fun pick :: "jsval \<Rightarrow> string list \<Rightarrow> jsval" where
  "pick (JObj kvs) ks =
     JObj (List.map_filter (\<lambda>k. map_option (\<lambda>v. (k, v)) (map_of kvs k)) ks)"
| "pick _ ks = JObj []"

text \<open>Setting a property: an existing key keeps its position, a new key goes last.\<close>

fun assign :: "(string \<times> jsval) list \<Rightarrow> string \<Rightarrow> jsval \<Rightarrow> (string \<times> jsval) list" where
  "assign [] k v = [(k, v)]"
| "assign ((k', v') # kvs) k v =
     (if k' = k then (k, v) # kvs else (k', v') # assign kvs k v)"

text \<open>\<open>_.merge({}, body, {hash: hv})\<close> for the object \<open>body\<close> that \<open>_.pick\<close> returned.\<close>

fun merge_hash :: "jsval \<Rightarrow> string \<Rightarrow> jsval" where
  "merge_hash (JObj kvs) hv = JObj (assign kvs ''hash'' (JStr hv))"
| "merge_hash _ hv = JObj [(''hash'', JStr hv)]"

section \<open>The router of \<open>src/index.js\<close>\<close>

definition TASK_SEND :: string where "TASK_SEND = ''send''"
definition TASK_RESULT :: string where "TASK_RESULT = ''result''"
definition TASK_SENT :: string where "TASK_SENT = ''sent''"

definition MESSAGE_FIELDS :: "string list" where
  "MESSAGE_FIELDS =
     [''from'', ''message'', ''message_id'', ''sent_to'', ''device_id'', ''sent_timestamp'']"

text \<open>
  The merged options. A handler is given its argument and completes once with the pair
  \<open>(error, result)\<close> it hands to its callback.
\<close>

record options =
  endpoint :: string
  secret :: jsval
  reply :: jsval
  error :: jsval
  onReceive :: "jsval \<Rightarrow> jsval \<times> jsval"
  onSend :: "jsval \<times> jsval"
  onSent :: "jsval \<Rightarrow> jsval \<times> jsval"
  onQueued :: "jsval \<times> jsval"
  onDelivered :: "jsval \<Rightarrow> jsval \<times> jsval"

text \<open>
  A request as Express hands it over: the verb, the parsed query (always an object) and
  the parsed body.
\<close>

record request =
  req_method :: string
  query :: "(string \<times> jsval) list"
  body :: jsval

text \<open>The handler invocations a request causes, with their arguments.\<close>

datatype call =
    CallOnReceive jsval
  | CallOnSend
  | CallOnSent jsval
  | CallOnQueued
  | CallOnDelivered jsval

text \<open>
  What a layer does with the request: \<open>response.ok(reply)\<close> (HTTP 200 with the reply),
  \<open>next(error)\<close> (the error goes to the error middleware), or \<open>next()\<close> (the following
  layer runs).
\<close>

datatype outcome =
    Ok jsval
  | NextError jsval
  | Next

text \<open>The literal \<open>{payload: {success: false, error: message}}\<close>.\<close>

definition failure_reply :: "jsval \<Rightarrow> jsval" where
  "failure_reply message =
     JObj [(''payload'', JObj [(''success'', JBool False), (''error'', message)])]"

text \<open>The literal \<open>{payload: {success: true, error: null}}\<close>.\<close>

definition success_reply :: jsval where
  "success_reply = JObj [(''payload'', JObj [(''success'', JBool True), (''error'', JNull)])]"

text \<open>Lines 70-71: the secret is taken from the query or from the body.\<close>

definition provided_secret :: "request \<Rightarrow> jsval" where
  "provided_secret rq =
     js_or (js_get (js_or (JObj (query rq)) (JObj [])) ''secret'')
           (js_get (js_or (body rq) (JObj [])) ''secret'')"

text \<open>Lines 77-80.\<close>

definition isAllowedRequest :: "request \<Rightarrow> bool" where
  "isAllowedRequest rq \<longleftrightarrow>
     req_method rq = ''POST'' \<and>
     (strict_eq (js_get (JObj (query rq)) ''task'') (JStr TASK_SENT) \<or>
      strict_eq (js_get (JObj (query rq)) ''task'') (JStr TASK_RESULT))"

text \<open>Lines 68-114: the middleware that protects the endpoint.\<close>

definition secret_middleware :: "options \<Rightarrow> request \<Rightarrow> outcome" where
  "secret_middleware opts rq =
     (let isValidSecret = strict_eq (secret opts) (provided_secret rq) in
      if isValidSecret \<or> isAllowedRequest rq then Next
      else
        (let err = JError ''Secret Key Mismatch'' in
         if truthy err \<and> \<not> truthy (error opts) then NextError err
         else if truthy err \<and> truthy (error opts) then
           Ok (failure_reply
                 (js_or (js_get err ''message'') (JStr ''Fail to process delivery reports'')))
         else Next))"

text \<open>Line 66: the middleware is installed only for a truthy, non-empty secret.\<close>

definition secret_guard :: "options \<Rightarrow> request \<Rightarrow> outcome" where
  "secret_guard opts rq =
     (if truthy (secret opts) \<and> \<not> isEmpty (secret opts) then secret_middleware opts rq
      else Next)"

text \<open>Line 201: \<open>_.size(_.compact(_.map([].concat(result), 'to'))) > 0\<close>.\<close>

definition hasReply :: "jsval \<Rightarrow> bool" where
  "hasReply result \<longleftrightarrow>
     length (filter truthy (map (\<lambda>item. js_get item ''to'') (array_concat [] result))) > 0"

text \<open>
  Lines 194-197: the body is cut down to the message fields and extended with the hash
  of what is left. The content hash of \<open>object-hash\<close> is the parameter \<open>hash\<close>.
\<close>

definition normalized_message :: "(jsval \<Rightarrow> string) \<Rightarrow> jsval \<Rightarrow> jsval" where
  "normalized_message hash b =
     (let picked = pick b MESSAGE_FIELDS in merge_hash picked (hash picked))"

text \<open>Lines 127-252: the POST route.\<close>

definition post_handler ::
  "(jsval \<Rightarrow> string) \<Rightarrow> options \<Rightarrow> request \<Rightarrow> call list \<times> outcome" where
  "post_handler hash opts rq =
     (let task = js_get (js_or (JObj (query rq)) (JObj [])) ''task'' in
      if truthy task \<and> strict_eq task (JStr TASK_SENT) then
        (let queued = js_get (body rq) ''queued_messages'' in
         case onSent opts queued of (err, result) \<Rightarrow>
           ([CallOnSent queued],
            Ok (JObj [(''queued_messages'', JArr (array_concat [] result))])))
      else if truthy task \<and> strict_eq task (JStr TASK_RESULT) then
        (let delivered = js_get (body rq) ''message_result'' in
         case onDelivered opts delivered of (err, result) \<Rightarrow>
           ([CallOnDelivered delivered],
            if truthy err \<and> \<not> truthy (error opts) then NextError err
            else if truthy err \<and> truthy (error opts) then
              Ok (failure_reply
                    (js_or (js_get err ''message'') (JStr ''Fail to process delivery reports'')))
            else Ok success_reply))
      else
        (let sms = normalized_message hash (body rq) in
         case onReceive opts sms of (err, result) \<Rightarrow>
           ([CallOnReceive sms],
            if truthy err \<and> \<not> truthy (error opts) then NextError err
            else if truthy err \<and> truthy (error opts) then
              Ok (failure_reply
                    (js_or (js_get err ''message'') (JStr ''Fail to process received message'')))
            else if truthy (reply opts) \<and> hasReply result then
              Ok (JObj [(''payload'',
                    JObj [(''success'', JBool True), (''task'', JStr TASK_SEND),
                          (''messages'', JArr (array_concat [] result))])])
            else Ok success_reply)))"

text \<open>Lines 262-321: the GET route.\<close>

definition get_handler :: "options \<Rightarrow> request \<Rightarrow> call list \<times> outcome" where
  "get_handler opts rq =
     (let task = js_get (js_or (JObj (query rq)) (JObj [])) ''task'' in
      if truthy task \<and> strict_eq task (JStr TASK_RESULT) then
        (case onQueued opts of (err, result) \<Rightarrow>
           ([CallOnQueued], Ok (JObj [(''message_uuids'', JArr (array_concat [] result))])))
      else
        (case onSend opts of (err, result) \<Rightarrow>
           ([CallOnSend],
            if truthy err \<and> \<not> truthy (error opts) then NextError err
            else if truthy err \<and> truthy (error opts) then
              Ok (failure_reply
                    (js_or (js_get err ''message'') (JStr ''Fail to obtain message to send'')))
            else
              Ok (JObj [(''payload'',
                    JObj [(''task'', JStr TASK_SEND), (''secret'', secret opts),
                          (''messages'', JArr (array_concat [] result))])]))))"

text \<open>
  The two routes in the order they are registered, for a request addressed to the
  endpoint path. The source registers one route for POST and one for GET; Express serves
  a HEAD request with the GET route when no HEAD route is registered, and a request with
  any other verb matches neither route and leaves the router.
\<close>

definition routes ::
  "(jsval \<Rightarrow> string) \<Rightarrow> options \<Rightarrow> request \<Rightarrow> call list \<times> outcome" where
  "routes hash opts rq =
     (if req_method rq = ''POST'' then post_handler hash opts rq
      else if req_method rq = ''GET'' \<or> req_method rq = ''HEAD'' then get_handler opts rq
      else ([], Next))"

text \<open>
  The router: the secret middleware first, and the routes only when it calls \<open>next()\<close>.
  The result is the list of handler invocations and what the request ends with.
\<close>

definition smssync ::
  "(jsval \<Rightarrow> string) \<Rightarrow> options \<Rightarrow> request \<Rightarrow> call list \<times> outcome" where
  "smssync hash opts rq =
     (case secret_guard opts rq of
        Next \<Rightarrow> routes hash opts rq
      | out \<Rightarrow> ([], out))"

section \<open>The application of \<open>test/smssync.spec.js\<close>\<close>

text \<open>
  The handlers of the test suite, with fixed values where the suite draws random ones:
  \<open>onReceive\<close> answers the sender, \<open>onSend\<close> offers one message, \<open>onSent\<close> and
  \<open>onDelivered\<close> echo their argument, \<open>onQueued\<close> returns one identifier. The options
  are the defaults of the router.
\<close>

definition test_options :: options where
  "test_options =
     \<lparr>endpoint = ''smssync'', secret = JStr ''smssync'', reply = JBool True,
      error = JBool True,
      onReceive = (\<lambda>sms. (JNull,
        JObj [(''to'', js_get sms ''from''), (''uuid'', js_get sms ''message_id''),
              (''message'', js_get sms ''message'')])),
      onSend = (JNull,
        JArr [JObj [(''to'', JStr ''+1''), (''message'', JStr ''x''), (''uuid'', JStr ''u1'')]]),
      onSent = (\<lambda>queued. (JNull, queued)),
      onQueued = (JNull, JArr [JStr ''u1'']),
      onDelivered = (\<lambda>delivered. (JNull, delivered))\<rparr>"

text \<open>A stand-in for the content hash, used to evaluate examples only.\<close>

fun test_hash :: "jsval \<Rightarrow> string" where
  "test_hash (JObj kvs) = concat (map fst kvs)"
| "test_hash _ = []"

text \<open>The message of the first test, with the secret in the body as the suite sends it.\<close>

definition test_sms :: jsval where
  "test_sms =
     JObj [(''from'', JStr ''+1''), (''message'', JStr ''hi''), (''message_id'', JStr ''m1''),
           (''sent_to'', JStr ''+2''), (''secret'', JStr ''smssync''),
           (''device_id'', JStr ''d1''), (''sent_timestamp'', JStr ''t1'')]"

text \<open>
  A POST that carries an empty \<open>secret\<close> in the query (\<open>?secret=\<close>) and the secret in
  the body.
\<close>

definition empty_query_secret_request :: request where
  "empty_query_secret_request =
     \<lparr>req_method = ''POST'', query = [(''secret'', JStr [])], body = test_sms\<rparr>"

section \<open>The vocabulary of the specification\<close>

text \<open>The own property of an object under a name, if it has one.\<close>

fun own_property :: "jsval \<Rightarrow> string \<Rightarrow> jsval option" where
  "own_property (JObj kvs) k = map_of kvs k"
| "own_property _ k = None"

text \<open>The five protocol operations and the handler that serves each.\<close>

datatype task = ReceiveMessage | SendPoll | SentAck | DeliveryResult | QueuedPoll

fun call_task :: "call \<Rightarrow> task" where
  "call_task (CallOnReceive sms) = ReceiveMessage"
| "call_task CallOnSend = SendPoll"
| "call_task (CallOnSent queued) = SentAck"
| "call_task CallOnQueued = QueuedPoll"
| "call_task (CallOnDelivered delivered) = DeliveryResult"

text \<open>
  The classification table of the specification, from the verb and the \<open>task\<close> query
  parameter (\<open>JUndefined\<close> when absent); a verb the table does not list has no task.
\<close>

definition classify :: "string \<Rightarrow> jsval \<Rightarrow> task option" where
  "classify verb t =
     (if verb = ''POST'' then
        Some (if t = JStr ''sent'' then SentAck
              else if t = JStr ''result'' then DeliveryResult
              else ReceiveMessage)
      else if verb = ''GET'' then
        Some (if t = JStr ''result'' then QueuedPoll else SendPoll)
      else None)"

section \<open>Basic facts\<close>

lemma js_or_JObj: "js_or (JObj kvs) b = JObj kvs"
  by (simp add: js_or_def)

lemma strict_eq_JStr_right: "strict_eq x (JStr s) \<longleftrightarrow> x = JStr s"
  by (auto simp: strict_eq_def)

lemma strict_eq_JStr_left: "strict_eq (JStr s) x \<longleftrightarrow> x = JStr s"
  by (auto simp: strict_eq_def)

lemma smssync_admitted:
  "secret_guard opts rq = Next \<Longrightarrow> smssync hash opts rq = routes hash opts rq"
  by (simp add: smssync_def)

lemma isAllowedRequest_iff:
  "isAllowedRequest rq \<longleftrightarrow>
     req_method rq = ''POST'' \<and>
     (js_get (JObj (query rq)) ''task'' = JStr ''sent'' \<or>
      js_get (JObj (query rq)) ''task'' = JStr ''result'')"
  by (simp add: isAllowedRequest_def strict_eq_JStr_right TASK_SENT_def TASK_RESULT_def)

lemma task_param: "js_get (js_or (JObj q) (JObj [])) k = js_get (JObj q) k"
  by (simp add: js_or_def)

lemma post_sent:
  assumes "js_get (JObj (query rq)) ''task'' = JStr ''sent''"
    and "onSent opts (js_get (body rq) ''queued_messages'') = (err, result)"
  shows "post_handler hash opts rq =
           ([CallOnSent (js_get (body rq) ''queued_messages'')],
            Ok (JObj [(''queued_messages'', JArr (array_concat [] result))]))"
  using assms
  by (simp add: post_handler_def task_param strict_eq_JStr_right TASK_SENT_def)

lemma post_result:
  assumes "js_get (JObj (query rq)) ''task'' = JStr ''result''"
    and "onDelivered opts (js_get (body rq) ''message_result'') = (err, result)"
  shows "post_handler hash opts rq =
           ([CallOnDelivered (js_get (body rq) ''message_result'')],
            if truthy err \<and> \<not> truthy (error opts) then NextError err
            else if truthy err \<and> truthy (error opts) then
              Ok (failure_reply
                    (js_or (js_get err ''message'') (JStr ''Fail to process delivery reports'')))
            else Ok success_reply)"
  using assms
  by (simp add: post_handler_def task_param strict_eq_JStr_right TASK_SENT_def TASK_RESULT_def)

lemma hasReply_iff:
  "hasReply result \<longleftrightarrow> (\<exists>item \<in> set (array_concat [] result). truthy (js_get item ''to''))"
  by (auto simp: hasReply_def filter_empty_conv)

lemma post_receive:
  assumes "js_get (JObj (query rq)) ''task'' \<noteq> JStr ''sent''"
    and "js_get (JObj (query rq)) ''task'' \<noteq> JStr ''result''"
    and "onReceive opts (normalized_message hash (body rq)) = (err, result)"
  shows "post_handler hash opts rq =
           ([CallOnReceive (normalized_message hash (body rq))],
            if truthy err \<and> \<not> truthy (error opts) then NextError err
            else if truthy err \<and> truthy (error opts) then
              Ok (failure_reply
                    (js_or (js_get err ''message'') (JStr ''Fail to process received message'')))
            else if truthy (reply opts) \<and> hasReply result then
              Ok (JObj [(''payload'',
                    JObj [(''success'', JBool True), (''task'', JStr ''send''),
                          (''messages'', JArr (array_concat [] result))])])
            else Ok success_reply)"
  using assms
  by (simp add: post_handler_def task_param strict_eq_JStr_right TASK_SENT_def TASK_RESULT_def
        TASK_SEND_def)

lemma get_result:
  assumes "js_get (JObj (query rq)) ''task'' = JStr ''result''"
    and "onQueued opts = (err, result)"
  shows "get_handler opts rq =
           ([CallOnQueued], Ok (JObj [(''message_uuids'', JArr (array_concat [] result))]))"
  using assms
  by (simp add: get_handler_def task_param strict_eq_JStr_right TASK_RESULT_def)

lemma get_send:
  assumes "js_get (JObj (query rq)) ''task'' \<noteq> JStr ''result''"
    and "onSend opts = (err, result)"
  shows "get_handler opts rq =
           ([CallOnSend],
            if truthy err \<and> \<not> truthy (error opts) then NextError err
            else if truthy err \<and> truthy (error opts) then
              Ok (failure_reply
                    (js_or (js_get err ''message'') (JStr ''Fail to obtain message to send'')))
            else
              Ok (JObj [(''payload'',
                    JObj [(''task'', JStr ''send''), (''secret'', secret opts),
                          (''messages'', JArr (array_concat [] result))])]))"
  using assms
  by (simp add: get_handler_def task_param strict_eq_JStr_right TASK_RESULT_def TASK_SEND_def)

lemma exempt_admitted:
  assumes "req_method rq = ''POST''"
    and "js_get (JObj (query rq)) ''task'' = JStr ''sent'' \<or>
         js_get (JObj (query rq)) ''task'' = JStr ''result''"
  shows "secret_guard opts rq = Next"
  using assms by (simp add: secret_guard_def secret_middleware_def isAllowedRequest_iff)

lemma guard_rejects:
  assumes "secret_guard opts rq \<noteq> Next"
  shows "secret_guard opts rq =
           (if truthy (error opts) then Ok (failure_reply (JStr ''Secret Key Mismatch''))
            else NextError (JError ''Secret Key Mismatch''))"
  using assms
  by (simp add: secret_guard_def secret_middleware_def js_or_def split: if_splits)

lemma routes_calls:
  "fst (routes hash opts rq) =
     (if req_method rq = ''POST'' then
        (if js_get (JObj (query rq)) ''task'' = JStr ''sent''
         then [CallOnSent (js_get (body rq) ''queued_messages'')]
         else if js_get (JObj (query rq)) ''task'' = JStr ''result''
         then [CallOnDelivered (js_get (body rq) ''message_result'')]
         else [CallOnReceive (normalized_message hash (body rq))])
      else if req_method rq = ''GET'' \<or> req_method rq = ''HEAD'' then
        (if js_get (JObj (query rq)) ''task'' = JStr ''result'' then [CallOnQueued]
         else [CallOnSend])
      else [])"
  by (simp add: routes_def post_handler_def get_handler_def task_param strict_eq_JStr_right
        TASK_SENT_def TASK_RESULT_def case_prod_beta Let_def)

lemma routes_classified:
  assumes "classify (req_method rq) (js_get (JObj (query rq)) ''task'') = Some t"
  shows "map call_task (fst (routes hash opts rq)) = [t]"
  using assms by (auto simp: routes_calls classify_def split: if_splits)

lemma map_of_assign:
  "map_of (assign kvs k v) k' = (if k' = k then Some v else map_of kvs k')"
  by (induction kvs) auto

lemma pick_own:
  "pick b ks = JObj (List.map_filter (\<lambda>k. map_option (\<lambda>v. (k, v)) (own_property b k)) ks)"
  by (cases b) (simp_all add: map_filter_def)

lemma map_of_picked:
  "map_of (List.map_filter (\<lambda>k. map_option (\<lambda>v. (k, v)) (f k)) ks) k =
     (if k \<in> set ks then f k else None)"
  by (induction ks) (auto split: option.splits)

lemma pick_agree:
  assumes "\<forall>f \<in> set ks. own_property b f = own_property b' f"
  shows "pick b ks = pick b' ks"
proof -
  have "List.map_filter (\<lambda>k. map_option (\<lambda>v. (k, v)) (own_property b k)) ks =
        List.map_filter (\<lambda>k. map_option (\<lambda>v. (k, v)) (own_property b' k)) ks"
    using assms by (induction ks) (auto split: option.splits)
  then show ?thesis by (simp add: pick_own)
qed

lemma own_property_normalized:
  "own_property (normalized_message hash b) k =
     (if k = ''hash'' then Some (JStr (hash (pick b MESSAGE_FIELDS)))
      else if k \<in> set MESSAGE_FIELDS then own_property b k
      else None)"
proof -
  have "''hash'' \<notin> set MESSAGE_FIELDS" by (simp add: MESSAGE_FIELDS_def)
  then show ?thesis
    by (simp add: normalized_message_def Let_def pick_own map_of_assign map_of_picked)
qed

lemma test_guard_secret:
  "secret_guard test_options \<lparr>req_method = m, query = (''secret'', JStr ''smssync'') # q, body = b\<rparr>
     = Next"
  by (simp add: secret_guard_def secret_middleware_def test_options_def provided_secret_def
        js_or_def strict_eq_def)

lemma array_concat_Nil: "array_concat [] v = (case v of JArr xs \<Rightarrow> xs | _ \<Rightarrow> [v])"
  by (cases v) simp_all

lemma js_get_falsy_body: "\<not> truthy b \<Longrightarrow> js_get b k = JUndefined"
  by (cases b) simp_all

section \<open>The secret middleware\<close>

text \<open>
  C1. When the configured secret is a non-empty string, the secret the request provides
  differs from it, and the request is not a POST whose \<open>task\<close> is \<open>sent\<close> or \<open>result\<close>,
  no handler is invoked; with \<open>error\<close> enabled the reply is
  \<open>{payload: {success: false, error: "Secret Key Mismatch"}}\<close>, and with \<open>error\<close> disabled
  the error is passed to \<open>next\<close>.
\<close>

theorem secret_mismatch_short_circuits:
  assumes "secret opts = JStr s" and "s \<noteq> []"
    and "provided_secret rq \<noteq> JStr s"
    and "\<not> (req_method rq = ''POST'' \<and>
            (js_get (JObj (query rq)) ''task'' = JStr ''sent'' \<or>
             js_get (JObj (query rq)) ''task'' = JStr ''result''))"
  shows "smssync hash opts rq =
           ([], if truthy (error opts)
                then Ok (JObj [(''payload'',
                           JObj [(''success'', JBool False),
                                 (''error'', JStr ''Secret Key Mismatch'')])])
                else NextError (JError ''Secret Key Mismatch''))"
proof -
  have allowed: "\<not> isAllowedRequest rq"
    using assms(4) by (simp add: isAllowedRequest_iff)
  have valid: "\<not> strict_eq (secret opts) (provided_secret rq)"
    using assms(1,3) by (simp add: strict_eq_JStr_left)
  have "secret_guard opts rq = secret_middleware opts rq"
    using assms(1,2) by (simp add: secret_guard_def)
  then show ?thesis
    using allowed valid
    by (simp add: smssync_def secret_middleware_def failure_reply_def js_or_def)
qed

text \<open>A GET without any secret against the default options, inline and forwarded.\<close>

theorem secret_mismatch_short_circuits_witness:
  "provided_secret \<lparr>req_method = ''GET'', query = [], body = JObj []\<rparr> \<noteq> JStr ''smssync'' \<and>
   smssync test_hash test_options \<lparr>req_method = ''GET'', query = [], body = JObj []\<rparr> =
     ([], Ok (JObj [(''payload'',
                JObj [(''success'', JBool False),
                      (''error'', JStr ''Secret Key Mismatch'')])])) \<and>
   smssync test_hash (test_options\<lparr>error := JBool False\<rparr>)
       \<lparr>req_method = ''GET'', query = [], body = JObj []\<rparr> =
     ([], NextError (JError ''Secret Key Mismatch''))"
  using secret_mismatch_short_circuits
          [of test_options "''smssync''" "\<lparr>req_method = ''GET'', query = [], body = JObj []\<rparr>"
              test_hash]
        secret_mismatch_short_circuits
          [of "test_options\<lparr>error := JBool False\<rparr>" "''smssync''"
              "\<lparr>req_method = ''GET'', query = [], body = JObj []\<rparr>" test_hash]
  by (simp add: test_options_def provided_secret_def js_or_def)

section \<open>Classification and dispatch\<close>

text \<open>
  C2. The task of an admitted request is decided by the verb and the \<open>task\<close> query parameter
  alone, by the table of the specification (\<open>classify\<close>): POST with \<open>sent\<close> is SentAck, POST
  with \<open>result\<close> is DeliveryResult, any other POST is ReceiveMessage, GET with \<open>result\<close> is
  QueuedPoll and any other GET is SendPoll. The task is read off the one handler the
  request invokes. Two admitted requests with the same verb and \<open>task\<close> have the same task
  whatever else they carry, and the handler invoked and the payload it is given depend on
  the request only, not on the options or on what the handlers return.
\<close>

theorem task_classification:
  "(secret_guard opts rq = Next \<and>
    classify (req_method rq) (js_get (JObj (query rq)) ''task'') = Some t \<longrightarrow>
      map call_task (fst (smssync hash opts rq)) = [t]) \<and>
   (secret_guard opts rq = Next \<and> secret_guard opts' rq' = Next \<and>
    req_method rq = req_method rq' \<and>
    js_get (JObj (query rq)) ''task'' = js_get (JObj (query rq')) ''task'' \<longrightarrow>
      map call_task (fst (smssync hash opts rq)) =
      map call_task (fst (smssync hash' opts' rq'))) \<and>
   (secret_guard opts rq = Next \<and> secret_guard opts' rq = Next \<longrightarrow>
      fst (smssync hash opts rq) = fst (smssync hash opts' rq))"
  by (simp add: smssync_admitted routes_classified) (simp add: routes_calls)

text \<open>The first request of the test suite is a ReceiveMessage.\<close>

theorem task_classification_witness:
  "secret_guard test_options
     \<lparr>req_method = ''POST'', query = [(''secret'', JStr ''smssync'')], body = test_sms\<rparr> = Next \<and>
   classify ''POST'' (js_get (JObj [(''secret'', JStr ''smssync'')]) ''task'') =
     Some ReceiveMessage \<and>
   map call_task (fst (smssync test_hash test_options
     \<lparr>req_method = ''POST'', query = [(''secret'', JStr ''smssync'')], body = test_sms\<rparr>)) =
     [ReceiveMessage]"
  using task_classification
          [of test_options
              "\<lparr>req_method = ''POST'', query = [(''secret'', JStr ''smssync'')], body = test_sms\<rparr>"
              ReceiveMessage test_hash]
  by (simp add: secret_guard_def secret_middleware_def test_options_def provided_secret_def
        js_or_def strict_eq_def classify_def)

text \<open>
  C3. Two ReceiveMessage requests whose bodies agree on the six message fields hand the
  same message to \<open>onReceive\<close>, so their \<open>hash\<close> values are equal; the message has the
  \<open>hash\<close> of the projected body, exactly those of the six fields that the body has, with
  the body's values, and nothing else.
\<close>

theorem receive_message_projection:
  assumes "secret_guard opts rq = Next" and "secret_guard opts' rq' = Next"
    and "req_method rq = ''POST''" and "req_method rq' = ''POST''"
    and "js_get (JObj (query rq)) ''task'' \<noteq> JStr ''sent''"
    and "js_get (JObj (query rq)) ''task'' \<noteq> JStr ''result''"
    and "js_get (JObj (query rq')) ''task'' \<noteq> JStr ''sent''"
    and "js_get (JObj (query rq')) ''task'' \<noteq> JStr ''result''"
    and "\<forall>f \<in> set MESSAGE_FIELDS. own_property (body rq) f = own_property (body rq') f"
  shows "\<exists>sms. fst (smssync hash opts rq) = [CallOnReceive sms] \<and>
               fst (smssync hash opts' rq') = [CallOnReceive sms] \<and>
               (\<forall>k. own_property sms k =
                  (if k = ''hash'' then Some (JStr (hash (pick (body rq) MESSAGE_FIELDS)))
                   else if k \<in> set MESSAGE_FIELDS then own_property (body rq) k
                   else None))"
proof -
  have "pick (body rq) MESSAGE_FIELDS = pick (body rq') MESSAGE_FIELDS"
    using assms(9) by (rule pick_agree)
  then have same: "normalized_message hash (body rq) = normalized_message hash (body rq')"
    by (simp add: normalized_message_def)
  have "fst (smssync hash opts rq) = [CallOnReceive (normalized_message hash (body rq))]"
    using assms(1,3,5,6) by (simp add: smssync_admitted routes_calls)
  moreover have "fst (smssync hash opts' rq') = [CallOnReceive (normalized_message hash (body rq))]"
    using assms(2,4,7,8) same by (simp add: smssync_admitted routes_calls)
  ultimately show ?thesis
    by (simp add: own_property_normalized)
qed

text \<open>The message of the test suite, with its \<open>secret\<close> replaced by another extra field.\<close>

theorem receive_message_projection_witness:
  "own_property test_sms ''secret'' = Some (JStr ''smssync'') \<and>
   fst (smssync test_hash test_options
          \<lparr>req_method = ''POST'', query = [(''secret'', JStr ''smssync'')],
           body = test_sms\<rparr>) =
   fst (smssync test_hash test_options
          \<lparr>req_method = ''POST'', query = [(''secret'', JStr ''smssync'')],
           body = JObj [(''from'', JStr ''+1''), (''message'', JStr ''hi''),
                        (''message_id'', JStr ''m1''), (''sent_to'', JStr ''+2''),
                        (''device_id'', JStr ''d1''), (''sent_timestamp'', JStr ''t1''),
                        (''extra'', JNum 7)]\<rparr>) \<and>
   fst (smssync test_hash test_options
          \<lparr>req_method = ''POST'', query = [(''secret'', JStr ''smssync'')],
           body = test_sms\<rparr>) =
     [CallOnReceive
        (JObj [(''from'', JStr ''+1''), (''message'', JStr ''hi''),
               (''message_id'', JStr ''m1''), (''sent_to'', JStr ''+2''),
               (''device_id'', JStr ''d1''), (''sent_timestamp'', JStr ''t1''),
               (''hash'',
                JStr ''frommessagemessage_idsent_todevice_idsent_timestamp'')])]"
proof -
  let ?b = "JObj [(''from'', JStr ''+1''), (''message'', JStr ''hi''),
                  (''message_id'', JStr ''m1''), (''sent_to'', JStr ''+2''),
                  (''device_id'', JStr ''d1''), (''sent_timestamp'', JStr ''t1''),
                  (''extra'', JNum 7)]"
  let ?q = "[(''secret'', JStr ''smssync'')]"
  have agree: "\<forall>f \<in> set MESSAGE_FIELDS. own_property test_sms f = own_property ?b f"
    by (simp add: MESSAGE_FIELDS_def test_sms_def)
  from receive_message_projection
         [of test_options "\<lparr>req_method = ''POST'', query = ?q, body = test_sms\<rparr>"
             test_options "\<lparr>req_method = ''POST'', query = ?q, body = ?b\<rparr>" test_hash]
       test_guard_secret [of "''POST''" "[]"] agree
  obtain sms where
    "fst (smssync test_hash test_options
            \<lparr>req_method = ''POST'', query = ?q, body = test_sms\<rparr>) = [CallOnReceive sms]"
    "fst (smssync test_hash test_options
            \<lparr>req_method = ''POST'', query = ?q, body = ?b\<rparr>) = [CallOnReceive sms]"
    by auto
  moreover have "normalized_message test_hash test_sms =
      JObj [(''from'', JStr ''+1''), (''message'', JStr ''hi''),
            (''message_id'', JStr ''m1''), (''sent_to'', JStr ''+2''),
            (''device_id'', JStr ''d1''), (''sent_timestamp'', JStr ''t1''),
            (''hash'', JStr ''frommessagemessage_idsent_todevice_idsent_timestamp'')]"
    by (simp add: normalized_message_def MESSAGE_FIELDS_def test_sms_def map_filter_def)
  moreover have "fst (smssync test_hash test_options
      \<lparr>req_method = ''POST'', query = ?q, body = test_sms\<rparr>) =
      [CallOnReceive (normalized_message test_hash test_sms)]"
    using test_guard_secret [of "''POST''" "[]" test_sms]
    by (simp add: smssync_admitted routes_calls)
  ultimately show ?thesis
    by (simp add: test_sms_def)
qed

section \<open>Responses\<close>

text \<open>
  C4. When the handler of a ReceiveMessage request succeeds (its error is falsy), let the
  flattened result be the result itself when it is an array and the one-element sequence
  holding it otherwise. If \<open>reply\<close> is enabled and some item of the flattened result has a
  non-empty \<open>to\<close> (a truthy one: for a string, not the empty string), the reply is
  \<open>{payload: {success: true, task: "send", messages: <flattened result>}}\<close>, which has no
  \<open>error\<close> key; otherwise it is \<open>{payload: {success: true, error: null}}\<close>. A result that
  has such an item is neither \<open>null\<close> nor \<open>undefined\<close>, so the messages of a rendered reply
  do not depend on how a missing result is flattened.
\<close>

theorem receive_success_response:
  assumes "secret_guard opts rq = Next" and "req_method rq = ''POST''"
    and "js_get (JObj (query rq)) ''task'' \<noteq> JStr ''sent''"
    and "js_get (JObj (query rq)) ''task'' \<noteq> JStr ''result''"
    and "onReceive opts (normalized_message hash (body rq)) = (err, result)"
    and "\<not> truthy err"
  shows "(let seq = (case result of JArr xs \<Rightarrow> xs | _ \<Rightarrow> [result]) in
           snd (smssync hash opts rq) =
             (if truthy (reply opts) \<and> (\<exists>item \<in> set seq. truthy (js_get item ''to''))
              then Ok (JObj [(''payload'',
                         JObj [(''success'', JBool True), (''task'', JStr ''send''),
                               (''messages'', JArr seq)])])
              else Ok (JObj [(''payload'',
                         JObj [(''success'', JBool True), (''error'', JNull)])])) \<and>
           ((\<exists>item \<in> set seq. truthy (js_get item ''to'')) \<longrightarrow>
              result \<noteq> JNull \<and> result \<noteq> JUndefined))"
proof -
  have response: "snd (smssync hash opts rq) =
      (if truthy (reply opts) \<and>
          (\<exists>item \<in> set (array_concat [] result). truthy (js_get item ''to''))
       then Ok (JObj [(''payload'',
                  JObj [(''success'', JBool True), (''task'', JStr ''send''),
                        (''messages'', JArr (array_concat [] result))])])
       else Ok (JObj [(''payload'',
                  JObj [(''success'', JBool True), (''error'', JNull)])]))"
    using assms post_receive [OF assms(3,4,5)]
    by (simp add: smssync_admitted routes_def hasReply_iff success_reply_def)
  have present: "result \<noteq> JNull \<and> result \<noteq> JUndefined"
    if "\<exists>item \<in> set (array_concat [] result). truthy (js_get item ''to'')"
    using that by (cases result) auto
  show ?thesis
    unfolding Let_def array_concat_Nil [symmetric]
    using response present by blast
qed

text \<open>
  Scenario A of the specification (a bare reply), a handler that returns an array of two
  items of which the second has a \<open>to\<close>, and a handler that returns \<open>null\<close>.
\<close>

theorem receive_success_response_witness:
  "snd (smssync test_hash test_options
          \<lparr>req_method = ''POST'', query = [(''secret'', JStr ''smssync'')], body = test_sms\<rparr>) =
     Ok (JObj [(''payload'',
           JObj [(''success'', JBool True), (''task'', JStr ''send''),
                 (''messages'',
                  JArr [JObj [(''to'', JStr ''+1''), (''uuid'', JStr ''m1''),
                              (''message'', JStr ''hi'')]])])]) \<and>
   snd (smssync test_hash
          (test_options\<lparr>onReceive := (\<lambda>sms. (JNull,
             JArr [JObj [(''note'', JStr ''n'')],
                   JObj [(''to'', JStr ''+1''), (''message'', JStr ''hi'')]]))\<rparr>)
          \<lparr>req_method = ''POST'', query = [(''secret'', JStr ''smssync'')], body = test_sms\<rparr>) =
     Ok (JObj [(''payload'',
           JObj [(''success'', JBool True), (''task'', JStr ''send''),
                 (''messages'',
                  JArr [JObj [(''note'', JStr ''n'')],
                        JObj [(''to'', JStr ''+1''), (''message'', JStr ''hi'')]])])]) \<and>
   snd (smssync test_hash (test_options\<lparr>onReceive := (\<lambda>sms. (JNull, JNull))\<rparr>)
          \<lparr>req_method = ''POST'', query = [(''secret'', JStr ''smssync'')], body = test_sms\<rparr>) =
     Ok (JObj [(''payload'', JObj [(''success'', JBool True), (''error'', JNull)])])"
  using receive_success_response
          [of test_options
              "\<lparr>req_method = ''POST'', query = [(''secret'', JStr ''smssync'')], body = test_sms\<rparr>"
              test_hash JNull
              "JObj [(''to'', JStr ''+1''), (''uuid'', JStr ''m1''), (''message'', JStr ''hi'')]"]
        receive_success_response
          [of "test_options\<lparr>onReceive := (\<lambda>sms. (JNull,
                 JArr [JObj [(''note'', JStr ''n'')],
                       JObj [(''to'', JStr ''+1''), (''message'', JStr ''hi'')]]))\<rparr>"
              "\<lparr>req_method = ''POST'', query = [(''secret'', JStr ''smssync'')], body = test_sms\<rparr>"
              test_hash JNull
              "JArr [JObj [(''note'', JStr ''n'')],
                     JObj [(''to'', JStr ''+1''), (''message'', JStr ''hi'')]]"]
        receive_success_response
          [of "test_options\<lparr>onReceive := (\<lambda>sms. (JNull, JNull))\<rparr>"
              "\<lparr>req_method = ''POST'', query = [(''secret'', JStr ''smssync'')], body = test_sms\<rparr>"
              test_hash JNull JNull]
  by (simp add: secret_guard_def secret_middleware_def test_options_def provided_secret_def
        js_or_def strict_eq_def Let_def normalized_message_def MESSAGE_FIELDS_def test_sms_def
        map_filter_def)

text \<open>
  C5, as stated, fails when \<open>onSend\<close> succeeds with \<open>null\<close>: the flattened sequence of the
  specification is empty for a null result, but the reply carries \<open>messages: [null]\<close>.
\<close>

theorem send_poll_null_counterexample:
  "smssync test_hash (test_options\<lparr>onSend := (JNull, JNull)\<rparr>)
     \<lparr>req_method = ''GET'', query = [(''secret'', JStr ''smssync'')], body = JObj []\<rparr> =
     ([CallOnSend],
      Ok (JObj [(''payload'',
            JObj [(''task'', JStr ''send''), (''secret'', JStr ''smssync''),
                  (''messages'', JArr [JNull])])])) \<and>
   smssync test_hash (test_options\<lparr>onSend := (JNull, JNull)\<rparr>)
     \<lparr>req_method = ''GET'', query = [(''secret'', JStr ''smssync'')], body = JObj []\<rparr> \<noteq>
     ([CallOnSend],
      Ok (JObj [(''payload'',
            JObj [(''task'', JStr ''send''), (''secret'', JStr ''smssync''),
                  (''messages'', JArr [])])]))"
  by (simp add: smssync_def secret_guard_def secret_middleware_def test_options_def
        provided_secret_def js_or_def strict_eq_def routes_def get_handler_def TASK_RESULT_def
        TASK_SEND_def)

text \<open>
  C5, amended. When the handler of a SendPoll request succeeds, the reply is
  \<open>{payload: {task: "send", secret: s, messages: m}}\<close> with \<open>s\<close> the configured secret and
  \<open>m\<close> the result itself when it is an array, and otherwise the one-element sequence
  holding the result, \<open>null\<close> and \<open>undefined\<close> included.
\<close>

theorem send_poll_success_response:
  assumes "secret_guard opts rq = Next" and "req_method rq = ''GET''"
    and "js_get (JObj (query rq)) ''task'' \<noteq> JStr ''result''"
    and "onSend opts = (err, result)"
    and "\<not> truthy err"
  shows "smssync hash opts rq =
           ([CallOnSend],
            Ok (JObj [(''payload'',
                  JObj [(''task'', JStr ''send''), (''secret'', secret opts),
                        (''messages'',
                         JArr (case result of JArr xs \<Rightarrow> xs | _ \<Rightarrow> [result]))])]))"
  unfolding array_concat_Nil [symmetric]
  using assms get_send [OF assms(3,4)]
  by (simp add: smssync_admitted routes_def)

text \<open>
  Scenario B of the specification (an array of one message), and a handler that returns
  one bare message.
\<close>

theorem send_poll_success_response_witness:
  "smssync test_hash test_options
     \<lparr>req_method = ''GET'', query = [(''secret'', JStr ''smssync'')], body = JObj []\<rparr> =
     ([CallOnSend],
      Ok (JObj [(''payload'',
            JObj [(''task'', JStr ''send''), (''secret'', JStr ''smssync''),
                  (''messages'',
                   JArr [JObj [(''to'', JStr ''+1''), (''message'', JStr ''x''),
                               (''uuid'', JStr ''u1'')]])])])) \<and>
   smssync test_hash
     (test_options\<lparr>onSend := (JNull, JObj [(''to'', JStr ''+2''), (''message'', JStr ''y'')])\<rparr>)
     \<lparr>req_method = ''GET'', query = [(''secret'', JStr ''smssync'')], body = JObj []\<rparr> =
     ([CallOnSend],
      Ok (JObj [(''payload'',
            JObj [(''task'', JStr ''send''), (''secret'', JStr ''smssync''),
                  (''messages'',
                   JArr [JObj [(''to'', JStr ''+2''), (''message'', JStr ''y'')]])])]))"
  using send_poll_success_response
          [of test_options
              "\<lparr>req_method = ''GET'', query = [(''secret'', JStr ''smssync'')], body = JObj []\<rparr>"
              JNull
              "JArr [JObj [(''to'', JStr ''+1''), (''message'', JStr ''x''),
                           (''uuid'', JStr ''u1'')]]" test_hash]
        send_poll_success_response
          [of "test_options\<lparr>onSend :=
                 (JNull, JObj [(''to'', JStr ''+2''), (''message'', JStr ''y'')])\<rparr>"
              "\<lparr>req_method = ''GET'', query = [(''secret'', JStr ''smssync'')], body = JObj []\<rparr>"
              JNull "JObj [(''to'', JStr ''+2''), (''message'', JStr ''y'')]" test_hash]
  by (simp add: secret_guard_def secret_middleware_def test_options_def provided_secret_def
        js_or_def strict_eq_def)

text \<open>
  C6, as stated, fails for a null or absent result: \<open>[].concat(null)\<close> is \<open>[null]\<close> and
  \<open>[].concat(undefined)\<close> is \<open>[undefined]\<close>, not the empty sequence. A QueuedPoll whose
  handler completes with \<open>null\<close> is answered \<open>{message_uuids: [null]}\<close>.
\<close>

theorem flatten_null_counterexample:
  "smssync test_hash (test_options\<lparr>onQueued := (JNull, JNull)\<rparr>)
     \<lparr>req_method = ''GET'', query = [(''secret'', JStr ''smssync''), (''task'', JStr ''result'')],
      body = JObj []\<rparr> =
     ([CallOnQueued], Ok (JObj [(''message_uuids'', JArr [JNull])])) \<and>
   smssync test_hash (test_options\<lparr>onQueued := (JNull, JUndefined)\<rparr>)
     \<lparr>req_method = ''GET'', query = [(''secret'', JStr ''smssync''), (''task'', JStr ''result'')],
      body = JObj []\<rparr> \<noteq>
     ([CallOnQueued], Ok (JObj [(''message_uuids'', JArr [])]))"
  by (simp add: smssync_def secret_guard_def secret_middleware_def test_options_def
        provided_secret_def js_or_def strict_eq_def routes_def get_handler_def TASK_RESULT_def)

text \<open>
  C6, amended. In each of the four flattened sequences (SentAck \<open>queued_messages\<close>,
  QueuedPoll \<open>message_uuids\<close>, SendPoll \<open>messages\<close>, ReceiveMessage \<open>messages\<close>) an array
  result passes through unchanged and any other result, \<open>null\<close> and \<open>undefined\<close> included,
  becomes the one-element sequence holding it.
\<close>

theorem flattened_result_sequences:
  "(let seq = (case result of JArr xs \<Rightarrow> xs | _ \<Rightarrow> [result]) in
     (req_method rq = ''POST'' \<and> js_get (JObj (query rq)) ''task'' = JStr ''sent'' \<and>
      onSent opts (js_get (body rq) ''queued_messages'') = (err, result) \<longrightarrow>
        snd (smssync hash opts rq) = Ok (JObj [(''queued_messages'', JArr seq)])) \<and>
     (secret_guard opts rq = Next \<and> req_method rq = ''GET'' \<and>
      js_get (JObj (query rq)) ''task'' = JStr ''result'' \<and>
      onQueued opts = (err, result) \<longrightarrow>
        snd (smssync hash opts rq) = Ok (JObj [(''message_uuids'', JArr seq)])) \<and>
     (secret_guard opts rq = Next \<and> req_method rq = ''GET'' \<and>
      js_get (JObj (query rq)) ''task'' \<noteq> JStr ''result'' \<and>
      onSend opts = (err, result) \<and> \<not> truthy err \<longrightarrow>
        snd (smssync hash opts rq) =
          Ok (JObj [(''payload'',
                JObj [(''task'', JStr ''send''), (''secret'', secret opts),
                      (''messages'', JArr seq)])])) \<and>
     (secret_guard opts rq = Next \<and> req_method rq = ''POST'' \<and>
      js_get (JObj (query rq)) ''task'' \<noteq> JStr ''sent'' \<and>
      js_get (JObj (query rq)) ''task'' \<noteq> JStr ''result'' \<and>
      onReceive opts (normalized_message hash (body rq)) = (err, result) \<and>
      \<not> truthy err \<and> truthy (reply opts) \<and> hasReply result \<longrightarrow>
        snd (smssync hash opts rq) =
          Ok (JObj [(''payload'',
                JObj [(''success'', JBool True), (''task'', JStr ''send''),
                      (''messages'', JArr seq)])])))"
proof -
  have sent: "snd (smssync hash opts rq) =
      Ok (JObj [(''queued_messages'', JArr (array_concat [] result))])"
    if "req_method rq = ''POST'' \<and> js_get (JObj (query rq)) ''task'' = JStr ''sent'' \<and>
        onSent opts (js_get (body rq) ''queued_messages'') = (err, result)"
    using that by (simp add: exempt_admitted smssync_admitted routes_def post_sent)
  have queued: "snd (smssync hash opts rq) =
      Ok (JObj [(''message_uuids'', JArr (array_concat [] result))])"
    if "secret_guard opts rq = Next \<and> req_method rq = ''GET'' \<and>
        js_get (JObj (query rq)) ''task'' = JStr ''result'' \<and> onQueued opts = (err, result)"
    using that by (simp add: smssync_admitted routes_def get_result)
  have send: "snd (smssync hash opts rq) =
      Ok (JObj [(''payload'',
            JObj [(''task'', JStr ''send''), (''secret'', secret opts),
                  (''messages'', JArr (array_concat [] result))])])"
    if "secret_guard opts rq = Next \<and> req_method rq = ''GET'' \<and>
        js_get (JObj (query rq)) ''task'' \<noteq> JStr ''result'' \<and>
        onSend opts = (err, result) \<and> \<not> truthy err"
    using that by (simp add: smssync_admitted routes_def get_send)
  have receive: "snd (smssync hash opts rq) =
      Ok (JObj [(''payload'',
            JObj [(''success'', JBool True), (''task'', JStr ''send''),
                  (''messages'', JArr (array_concat [] result))])])"
    if "secret_guard opts rq = Next \<and> req_method rq = ''POST'' \<and>
        js_get (JObj (query rq)) ''task'' \<noteq> JStr ''sent'' \<and>
        js_get (JObj (query rq)) ''task'' \<noteq> JStr ''result'' \<and>
        onReceive opts (normalized_message hash (body rq)) = (err, result) \<and>
        \<not> truthy err \<and> truthy (reply opts) \<and> hasReply result"
    using that by (simp add: smssync_admitted routes_def post_receive)
  show ?thesis
    unfolding Let_def array_concat_Nil [symmetric]
    using sent queued send receive by blast
qed

text \<open>A SendPoll whose handler completes with \<open>null\<close>, and a SentAck whose handler returns a bare identifier.\<close>

theorem flattened_result_sequences_witness:
  "snd (smssync test_hash (test_options\<lparr>onSend := (JNull, JNull)\<rparr>)
          \<lparr>req_method = ''GET'', query = [(''secret'', JStr ''smssync'')], body = JObj []\<rparr>) =
     Ok (JObj [(''payload'',
           JObj [(''task'', JStr ''send''), (''secret'', JStr ''smssync''),
                 (''messages'', JArr [JNull])])]) \<and>
   snd (smssync test_hash (test_options\<lparr>onSent := (\<lambda>queued. (JNull, JStr ''u1''))\<rparr>)
          \<lparr>req_method = ''POST'', query = [(''task'', JStr ''sent'')], body = JObj []\<rparr>) =
     Ok (JObj [(''queued_messages'', JArr [JStr ''u1''])])"
  using flattened_result_sequences
          [of JNull
              "\<lparr>req_method = ''GET'', query = [(''secret'', JStr ''smssync'')], body = JObj []\<rparr>"
              "test_options\<lparr>onSend := (JNull, JNull)\<rparr>" JNull test_hash]
        flattened_result_sequences
          [of "JStr ''u1''"
              "\<lparr>req_method = ''POST'', query = [(''task'', JStr ''sent'')], body = JObj []\<rparr>"
              "test_options\<lparr>onSent := (\<lambda>queued. (JNull, JStr ''u1''))\<rparr>" JNull test_hash]
  by (simp add: secret_guard_def secret_middleware_def test_options_def provided_secret_def
        js_or_def strict_eq_def)

section \<open>The provided secret\<close>

text \<open>
  C7, as stated, fails when the query carries an empty \<open>secret\<close>: both the query and the
  body carry a \<open>secret\<close>, yet the value checked is the body's, and the request is admitted.
\<close>

theorem query_secret_precedence_counterexample:
  "own_property (JObj (query empty_query_secret_request)) ''secret'' = Some (JStr []) \<and>
   own_property (body empty_query_secret_request) ''secret'' = Some (JStr ''smssync'') \<and>
   provided_secret empty_query_secret_request = JStr ''smssync'' \<and>
   provided_secret empty_query_secret_request \<noteq>
     js_get (JObj (query empty_query_secret_request)) ''secret'' \<and>
   secret_guard test_options empty_query_secret_request = Next"
  by (simp add: empty_query_secret_request_def test_sms_def provided_secret_def js_or_def
        secret_guard_def secret_middleware_def test_options_def strict_eq_def)

text \<open>
  C7, amended. The secret the middleware checks is the \<open>secret\<close> query parameter whenever
  that is truthy (present and not empty), whatever the body carries; when the query
  \<open>secret\<close> is absent or falsy it is the \<open>secret\<close> of the body. The middleware admits the
  request exactly when that value is strictly equal to the configured secret or the
  request is exempt.
\<close>

theorem provided_secret_precedence:
  "(truthy (js_get (JObj (query rq)) ''secret'') \<longrightarrow>
      provided_secret rq = js_get (JObj (query rq)) ''secret'') \<and>
   (\<not> truthy (js_get (JObj (query rq)) ''secret'') \<longrightarrow>
      provided_secret rq = js_get (body rq) ''secret'') \<and>
   (secret_middleware opts rq = Next \<longleftrightarrow>
      strict_eq (secret opts) (provided_secret rq) \<or> isAllowedRequest rq)"
proof (intro conjI impI)
  assume "truthy (js_get (JObj (query rq)) ''secret'')"
  then show "provided_secret rq = js_get (JObj (query rq)) ''secret''"
    by (simp add: provided_secret_def js_or_def)
next
  assume "\<not> truthy (js_get (JObj (query rq)) ''secret'')"
  then show "provided_secret rq = js_get (body rq) ''secret''"
    by (simp add: provided_secret_def js_or_def js_get_falsy_body)
next
  show "secret_middleware opts rq = Next \<longleftrightarrow>
      strict_eq (secret opts) (provided_secret rq) \<or> isAllowedRequest rq"
    by (simp add: secret_middleware_def Let_def)
qed

text \<open>A secret in both places, and a secret in the body only.\<close>

theorem provided_secret_precedence_witness:
  "truthy (js_get (JObj [(''secret'', JStr ''smssync'')]) ''secret'') \<and>
   provided_secret
     \<lparr>req_method = ''GET'', query = [(''secret'', JStr ''smssync'')],
      body = JObj [(''secret'', JStr ''other'')]\<rparr> = JStr ''smssync'' \<and>
   provided_secret
     \<lparr>req_method = ''GET'', query = [],
      body = JObj [(''secret'', JStr ''other'')]\<rparr> = JStr ''other''"
  using provided_secret_precedence
          [of "\<lparr>req_method = ''GET'', query = [(''secret'', JStr ''smssync'')],
                body = JObj [(''secret'', JStr ''other'')]\<rparr>" test_options]
        provided_secret_precedence
          [of "\<lparr>req_method = ''GET'', query = [],
                body = JObj [(''secret'', JStr ''other'')]\<rparr>" test_options]
  by simp

section \<open>Failures\<close>

text \<open>
  C8. With \<open>error\<close> enabled, a handler failure whose \<open>message\<close> is missing or empty is
  rendered with the default text of its task: "Fail to process received message" for
  ReceiveMessage, "Fail to process delivery reports" for DeliveryResult and "Fail to obtain
  message to send" for SendPoll; a request the secret middleware rejects is always
  answered "Secret Key Mismatch", whatever its verb and task.
\<close>

theorem default_failure_messages:
  assumes "truthy (error opts)"
  shows
  "(secret_guard opts rq = Next \<and> req_method rq = ''POST'' \<and>
    js_get (JObj (query rq)) ''task'' \<noteq> JStr ''sent'' \<and>
    js_get (JObj (query rq)) ''task'' \<noteq> JStr ''result'' \<and>
    onReceive opts (normalized_message hash (body rq)) = (err, result) \<and>
    truthy err \<and> \<not> truthy (js_get err ''message'') \<longrightarrow>
      snd (smssync hash opts rq) =
        Ok (failure_reply (JStr ''Fail to process received message''))) \<and>
   (req_method rq = ''POST'' \<and> js_get (JObj (query rq)) ''task'' = JStr ''result'' \<and>
    onDelivered opts (js_get (body rq) ''message_result'') = (err, result) \<and>
    truthy err \<and> \<not> truthy (js_get err ''message'') \<longrightarrow>
      snd (smssync hash opts rq) =
        Ok (failure_reply (JStr ''Fail to process delivery reports''))) \<and>
   (secret_guard opts rq = Next \<and> req_method rq = ''GET'' \<and>
    js_get (JObj (query rq)) ''task'' \<noteq> JStr ''result'' \<and>
    onSend opts = (err, result) \<and>
    truthy err \<and> \<not> truthy (js_get err ''message'') \<longrightarrow>
      snd (smssync hash opts rq) =
        Ok (failure_reply (JStr ''Fail to obtain message to send''))) \<and>
   (secret_guard opts rq \<noteq> Next \<longrightarrow>
      smssync hash opts rq = ([], Ok (failure_reply (JStr ''Secret Key Mismatch''))))"
proof (intro conjI impI)
  assume a: "secret_guard opts rq = Next \<and> req_method rq = ''POST'' \<and>
    js_get (JObj (query rq)) ''task'' \<noteq> JStr ''sent'' \<and>
    js_get (JObj (query rq)) ''task'' \<noteq> JStr ''result'' \<and>
    onReceive opts (normalized_message hash (body rq)) = (err, result) \<and>
    truthy err \<and> \<not> truthy (js_get err ''message'')"
  then have "post_handler hash opts rq =
      ([CallOnReceive (normalized_message hash (body rq))],
       Ok (failure_reply (JStr ''Fail to process received message'')))"
    using assms by (simp add: post_receive js_or_def)
  with a show "snd (smssync hash opts rq) =
      Ok (failure_reply (JStr ''Fail to process received message''))"
    by (simp add: smssync_admitted routes_def)
next
  assume a: "req_method rq = ''POST'' \<and> js_get (JObj (query rq)) ''task'' = JStr ''result'' \<and>
    onDelivered opts (js_get (body rq) ''message_result'') = (err, result) \<and>
    truthy err \<and> \<not> truthy (js_get err ''message'')"
  then have g: "secret_guard opts rq = Next"
    by (simp add: exempt_admitted)
  from a have "post_handler hash opts rq =
      ([CallOnDelivered (js_get (body rq) ''message_result'')],
       Ok (failure_reply (JStr ''Fail to process delivery reports'')))"
    using assms by (simp add: post_result js_or_def)
  with a g show "snd (smssync hash opts rq) =
      Ok (failure_reply (JStr ''Fail to process delivery reports''))"
    by (simp add: smssync_admitted routes_def)
next
  assume a: "secret_guard opts rq = Next \<and> req_method rq = ''GET'' \<and>
    js_get (JObj (query rq)) ''task'' \<noteq> JStr ''result'' \<and>
    onSend opts = (err, result) \<and>
    truthy err \<and> \<not> truthy (js_get err ''message'')"
  then have "get_handler opts rq =
      ([CallOnSend], Ok (failure_reply (JStr ''Fail to obtain message to send'')))"
    using assms by (simp add: get_send js_or_def)
  with a show "snd (smssync hash opts rq) =
      Ok (failure_reply (JStr ''Fail to obtain message to send''))"
    by (simp add: smssync_admitted routes_def)
next
  assume a: "secret_guard opts rq \<noteq> Next"
  from guard_rejects [OF a] assms
  have "secret_guard opts rq = Ok (failure_reply (JStr ''Secret Key Mismatch''))"
    by simp
  then show "smssync hash opts rq = ([], Ok (failure_reply (JStr ''Secret Key Mismatch'')))"
    by (simp add: smssync_def)
qed

text \<open>An \<open>onReceive\<close> that fails with an empty \<open>Error\<close>, under the right and under a wrong secret.\<close>

theorem default_failure_messages_witness:
  "snd (smssync test_hash (test_options\<lparr>onReceive := (\<lambda>sms. (JError [], JNull))\<rparr>)
          \<lparr>req_method = ''POST'', query = [(''secret'', JStr ''smssync'')], body = test_sms\<rparr>) =
     Ok (JObj [(''payload'',
           JObj [(''success'', JBool False),
                 (''error'', JStr ''Fail to process received message'')])]) \<and>
   smssync test_hash (test_options\<lparr>onReceive := (\<lambda>sms. (JError [], JNull))\<rparr>)
          \<lparr>req_method = ''POST'', query = [(''secret'', JStr ''wrong'')], body = test_sms\<rparr> =
     ([], Ok (JObj [(''payload'',
           JObj [(''success'', JBool False), (''error'', JStr ''Secret Key Mismatch'')])]))"
  using default_failure_messages
          [of "test_options\<lparr>onReceive := (\<lambda>sms. (JError [], JNull))\<rparr>"
              "\<lparr>req_method = ''POST'', query = [(''secret'', JStr ''smssync'')],
                body = test_sms\<rparr>"
              test_hash "JError []" JNull]
        default_failure_messages
          [of "test_options\<lparr>onReceive := (\<lambda>sms. (JError [], JNull))\<rparr>"
              "\<lparr>req_method = ''POST'', query = [(''secret'', JStr ''wrong'')],
                body = test_sms\<rparr>"
              test_hash "JError []" JNull]
  by (simp add: secret_guard_def secret_middleware_def test_options_def provided_secret_def
        js_or_def strict_eq_def failure_reply_def isAllowedRequest_iff)

text \<open>
  C9, as stated, fails when the handler reports a failure without a result: \<open>onSent\<close>
  completing with \<open>done(error)\<close> leaves the result \<open>undefined\<close>; the flattened sequence of
  the specification is then empty, but the reply is \<open>{queued_messages: [undefined]}\<close>.
\<close>

theorem sent_failure_undefined_counterexample:
  "smssync test_hash
     (test_options\<lparr>error := JBool False,
                    onSent := (\<lambda>queued. (JError ''down'', JUndefined))\<rparr>)
     \<lparr>req_method = ''POST'', query = [(''task'', JStr ''sent'')],
      body = JObj [(''queued_messages'', JArr [JStr ''u1''])]\<rparr> =
     ([CallOnSent (JArr [JStr ''u1''])],
      Ok (JObj [(''queued_messages'', JArr [JUndefined])])) \<and>
   smssync test_hash
     (test_options\<lparr>error := JBool False,
                    onSent := (\<lambda>queued. (JError ''down'', JUndefined))\<rparr>)
     \<lparr>req_method = ''POST'', query = [(''task'', JStr ''sent'')],
      body = JObj [(''queued_messages'', JArr [JStr ''u1''])]\<rparr> \<noteq>
     ([CallOnSent (JArr [JStr ''u1''])], Ok (JObj [(''queued_messages'', JArr [])]))"
  by (simp add: smssync_def secret_guard_def secret_middleware_def test_options_def
        provided_secret_def js_or_def strict_eq_def isAllowedRequest_def routes_def
        post_handler_def TASK_SENT_def TASK_RESULT_def)

text \<open>
  C9, amended. A SentAck request is answered \<open>{queued_messages: m}\<close> and an admitted
  QueuedPoll request \<open>{message_uuids: m}\<close> through \<open>response.ok\<close>, where \<open>m\<close> is the
  handler's result itself when it is an array and otherwise the one-element sequence
  holding the result, \<open>null\<close> and \<open>undefined\<close> included. This holds whatever error the
  handler reports and whether \<open>error\<close> is enabled or not: the error is neither passed to
  \<open>next\<close> nor rendered.
\<close>

theorem sent_and_queued_always_render:
  "(req_method rq = ''POST'' \<and> js_get (JObj (query rq)) ''task'' = JStr ''sent'' \<and>
    onSent opts (js_get (body rq) ''queued_messages'') = (err, result) \<longrightarrow>
      smssync hash opts rq =
        ([CallOnSent (js_get (body rq) ''queued_messages'')],
         Ok (JObj [(''queued_messages'',
               JArr (case result of JArr xs \<Rightarrow> xs | _ \<Rightarrow> [result]))]))) \<and>
   (secret_guard opts rq = Next \<and> req_method rq = ''GET'' \<and>
    js_get (JObj (query rq)) ''task'' = JStr ''result'' \<and>
    onQueued opts = (err, result) \<longrightarrow>
      smssync hash opts rq =
        ([CallOnQueued],
         Ok (JObj [(''message_uuids'',
               JArr (case result of JArr xs \<Rightarrow> xs | _ \<Rightarrow> [result]))])))"
proof -
  have sent: "smssync hash opts rq =
        ([CallOnSent (js_get (body rq) ''queued_messages'')],
         Ok (JObj [(''queued_messages'', JArr (array_concat [] result))]))"
    if "req_method rq = ''POST'' \<and> js_get (JObj (query rq)) ''task'' = JStr ''sent'' \<and>
        onSent opts (js_get (body rq) ''queued_messages'') = (err, result)"
    using that by (simp add: exempt_admitted smssync_admitted routes_def post_sent)
  have queued: "smssync hash opts rq =
        ([CallOnQueued], Ok (JObj [(''message_uuids'', JArr (array_concat [] result))]))"
    if "secret_guard opts rq = Next \<and> req_method rq = ''GET'' \<and>
        js_get (JObj (query rq)) ''task'' = JStr ''result'' \<and> onQueued opts = (err, result)"
    using that by (simp add: smssync_admitted routes_def get_result)
  show ?thesis
    unfolding array_concat_Nil [symmetric]
    using sent queued by blast
qed

text \<open>
  With \<open>error\<close> disabled: an \<open>onSent\<close> that fails and returns a bare identifier, and an
  \<open>onQueued\<close> that fails and returns an array.
\<close>

theorem sent_and_queued_always_render_witness:
  "smssync test_hash
     (test_options\<lparr>error := JBool False,
                    onSent := (\<lambda>queued. (JError ''down'', JStr ''u1''))\<rparr>)
     \<lparr>req_method = ''POST'', query = [(''task'', JStr ''sent'')],
      body = JObj [(''queued_messages'', JArr [JStr ''u1''])]\<rparr> =
     ([CallOnSent (JArr [JStr ''u1''])], Ok (JObj [(''queued_messages'', JArr [JStr ''u1''])])) \<and>
   smssync test_hash
     (test_options\<lparr>error := JBool False,
                    onQueued := (JError ''down'', JArr [JStr ''u2'', JStr ''u3''])\<rparr>)
     \<lparr>req_method = ''GET'', query = [(''secret'', JStr ''smssync''), (''task'', JStr ''result'')],
      body = JObj []\<rparr> =
     ([CallOnQueued], Ok (JObj [(''message_uuids'', JArr [JStr ''u2'', JStr ''u3''])]))"
  using sent_and_queued_always_render
          [of "\<lparr>req_method = ''POST'', query = [(''task'', JStr ''sent'')],
                body = JObj [(''queued_messages'', JArr [JStr ''u1''])]\<rparr>"
              "test_options\<lparr>error := JBool False,
                             onSent := (\<lambda>queued. (JError ''down'', JStr ''u1''))\<rparr>"
              "JError ''down''" "JStr ''u1''" test_hash]
        sent_and_queued_always_render
          [of "\<lparr>req_method = ''GET'',
                query = [(''secret'', JStr ''smssync''), (''task'', JStr ''result'')],
                body = JObj []\<rparr>"
              "test_options\<lparr>error := JBool False,
                             onQueued := (JError ''down'', JArr [JStr ''u2'', JStr ''u3''])\<rparr>"
              "JError ''down''" "JArr [JStr ''u2'', JStr ''u3'']" test_hash]
  by (simp add: secret_guard_def secret_middleware_def test_options_def provided_secret_def
        js_or_def strict_eq_def)

text \<open>
  C10. When the handler of a ReceiveMessage request reports an error and \<open>error\<close> is
  enabled, the reply is \<open>{payload: {success: false, error: message}}\<close>, with only these two
  keys, whatever result the handler supplied and whether \<open>reply\<close> is enabled.
\<close>

theorem receive_failure_precedes_reply:
  assumes "secret_guard opts rq = Next" and "req_method rq = ''POST''"
    and "js_get (JObj (query rq)) ''task'' \<noteq> JStr ''sent''"
    and "js_get (JObj (query rq)) ''task'' \<noteq> JStr ''result''"
    and "onReceive opts (normalized_message hash (body rq)) = (err, result)"
    and "truthy err" and "truthy (error opts)"
  shows "snd (smssync hash opts rq) =
           Ok (JObj [(''payload'',
                 JObj [(''success'', JBool False),
                       (''error'',
                        js_or (js_get err ''message'')
                              (JStr ''Fail to process received message''))])])"
  using assms post_receive [OF assms(3,4,5)]
  by (simp add: smssync_admitted routes_def failure_reply_def)

text \<open>An \<open>onReceive\<close> that reports an error together with a reply.\<close>

theorem receive_failure_precedes_reply_witness:
  "truthy (reply test_options) \<and>
   snd (smssync test_hash
          (test_options\<lparr>onReceive :=
             (\<lambda>sms. (JError ''no storage'', JObj [(''to'', JStr ''+1'')]))\<rparr>)
          \<lparr>req_method = ''POST'', query = [(''secret'', JStr ''smssync'')], body = test_sms\<rparr>) =
     Ok (JObj [(''payload'',
           JObj [(''success'', JBool False), (''error'', JStr ''no storage'')])])"
  using receive_failure_precedes_reply
          [of "test_options\<lparr>onReceive :=
                 (\<lambda>sms. (JError ''no storage'', JObj [(''to'', JStr ''+1'')]))\<rparr>"
              "\<lparr>req_method = ''POST'', query = [(''secret'', JStr ''smssync'')],
                body = test_sms\<rparr>"
              test_hash "JError ''no storage''" "JObj [(''to'', JStr ''+1'')]"]
  by (simp add: secret_guard_def secret_middleware_def test_options_def provided_secret_def
        js_or_def strict_eq_def)

end
